theory Spec2Isabelle
  imports Main "HOL-Library.AList" "HOL-Library.Multiset"
begin

section \<open>Common notions\<close>

text \<open>
  Go strings are byte strings, modelled as \<^typ>\<open>string\<close>. A Go map is modelled as an
  association list whose keys are distinct; the order of the list is no part of the map.
  Go visits the entries of a map in an order that the runtime picks anew for every
  \<^verbatim>\<open>range\<close> statement, so a loop over a map takes the order of its visit from outside:
  any list with the same entries.
\<close>

definition goMap :: "('k \<times> 'v) list \<Rightarrow> bool" where
  "goMap m = distinct (map fst m)"

definition visitOf :: "('k \<times> 'v) list \<Rightarrow> ('k \<times> 'v) list \<Rightarrow> bool" where
  "visitOf m order = (mset order = mset m)"

text \<open>
  A nil pointer dereference panics, and so does the key library when it is asked for the
  public key of a private key that is not well formed. Instants of the wall clock and durations are counted
  in nanoseconds; a \<^verbatim>\<open>time.Duration\<close> is a 64-bit signed integer, and the difference of
  two instants saturates at its bounds (\<^verbatim>\<open>Time.Sub\<close>). The instants stored by this
  program come from \<^verbatim>\<open>time.Now().UTC()\<close>, which carries no monotonic reading, so
  \<^verbatim>\<open>time.Since\<close> is the saturated difference of wall-clock instants.
\<close>

datatype panic = NilPointerDereference | BadPrivateKey

type_synonym time = int
type_synonym duration = int

definition minDuration :: duration where
  "minDuration = - (2 ^ 63)"

definition maxDuration :: duration where
  "maxDuration = 2 ^ 63 - 1"

definition time_Sub :: "time \<Rightarrow> time \<Rightarrow> duration" where
  "time_Sub t u =
     (if t - u < minDuration then minDuration
      else if maxDuration < t - u then maxDuration
      else t - u)"

definition time_Since :: "time \<Rightarrow> time \<Rightarrow> duration" where
  "time_Since now t = time_Sub now t"

section \<open>Configured peers (package config)\<close>

record Peer =
  Name :: string
  IP :: string

type_synonym Peers = "(string \<times> Peer) list"

text \<open>
  Modelled from the spec: the file that declares \<^verbatim>\<open>Peers\<close> and its method
  \<^verbatim>\<open>GetIPs\<close> is not among the sources. The spec calls the result the configured peer IP
  set, and the test \<^verbatim>\<open>TestPeers_GetIPs\<close> expects one IP per entry of the map.
\<close>

definition GetIPs :: "Peers \<Rightarrow> string list" where
  "GetIPs peers = map (\<lambda>(name, peer). Peer.IP peer) peers"

section \<open>The gossip state (internal/gossip/state.go)\<close>

record PeerState =
  IP :: string
  Pubkey :: string
  LastSeenAtUTC :: time
  LastSeenActive :: bool

type_synonym PeerStates = "(string \<times> PeerState) list"

record State =
  PeerStatesRefreshedAt :: time
  peerStatesByName :: PeerStates
  configPeers :: Peers
  activePubkey :: string
  selfIP :: string

text \<open>
  \<^verbatim>\<open>NewState\<close>: no observations yet, and the zero \<^verbatim>\<open>time.Time\<close>, the first instant of
  the year 1, as the instant of the last refresh. The RPC client and the logger of the
  source belong to the outside world.
\<close>

record Options =
  ActivePubkey :: string
  SelfIP :: string
  ConfigPeers :: Peers

definition zeroTime :: time where
  "zeroTime = - 62135596800 * 1000000000"

definition NewState :: "Options \<Rightarrow> State" where
  "NewState opts =
     \<lparr> PeerStatesRefreshedAt = zeroTime,
       peerStatesByName = [],
       configPeers = ConfigPeers opts,
       activePubkey = ActivePubkey opts,
       selfIP = SelfIP opts \<rparr>"

text \<open>
  A node of the cluster directory, as \<^verbatim>\<open>Refresh\<close> reads it: the text of its public key
  (\<^verbatim>\<open>node.Pubkey.String()\<close>) and its gossip endpoint, which the source reaches through a
  pointer (\<^verbatim>\<open>*node.Gossip\<close>), so it may be nil.
\<close>

record ClusterNode =
  Pubkey :: string
  Gossip :: "string option"

text \<open>
  What the outside world supplies to one call of \<^verbatim>\<open>Refresh\<close>: the outcome of
  \<^verbatim>\<open>GetClusterNodes\<close> (\<open>Inl\<close> the error); the readings of the clock, one while the
  node at position \<open>i\<close> of the response is recorded and one when the state is updated;
  the order in which the name lookup for the node at position \<open>i\<close> visits
  \<^verbatim>\<open>configPeers\<close>, and the order in which the closing warning loop visits it.
\<close>

record World =
  GetClusterNodes :: "string + ClusterNode list"
  nowAtNode :: "nat \<Rightarrow> time"
  nowAtEnd :: time
  lookupOrder :: "nat \<Rightarrow> Peers"
  warnOrder :: Peers

text \<open>The lines written at level warn and error; debug lines are left out.\<close>

datatype LogLine =
    ErrorFailedToGetClusterNodes string
  | WarnPeerNotFoundInConfig string
  | WarnPeerNotFoundInGossip string string

text \<open>\<^verbatim>\<open>strings.Split(s, ":")[0]\<close>: the text before the first colon, all of it without one.\<close>

definition hostOf :: "string \<Rightarrow> string" where
  "hostOf gossip = takeWhile (\<lambda>c. c \<noteq> CHR '':'') gossip"

text \<open>
  The inner loop of \<^verbatim>\<open>Refresh\<close>: the name of the first visited peer with the node's IP;
  the empty string, the zero value of \<^verbatim>\<open>peerName\<close>, when there is none.
\<close>

fun findPeerName :: "Peers \<Rightarrow> string \<Rightarrow> string" where
  "findPeerName [] nodeIP = []"
| "findPeerName ((name, peer) # rest) nodeIP =
     (if Peer.IP peer = nodeIP then name else findPeerName rest nodeIP)"

definition hardcodedPubkey :: string where
  "hardcodedPubkey = ''peNgUgnzs1jGogUPW8SThXMvzNpzKSNf3om78xVPAYx''"

text \<open>
  The loop over the returned nodes, from position \<open>i\<close> on; \<open>latest\<close> is
  \<^verbatim>\<open>latestPeerStatesByName\<close> and \<open>lg\<close> the lines logged so far.
\<close>

fun refreshNodes ::
  "State \<Rightarrow> World \<Rightarrow> nat \<Rightarrow> ClusterNode list \<Rightarrow> PeerStates \<Rightarrow> LogLine list
     \<Rightarrow> panic + (PeerStates \<times> LogLine list)" where
  "refreshNodes p w i [] latest lg = Inr (latest, lg)"
| "refreshNodes p w i (node # nodes) latest lg =
     (case Gossip node of
        None \<Rightarrow> Inl NilPointerDereference
      | Some gossip \<Rightarrow>
          (let nodeIP = hostOf gossip in
           if nodeIP \<notin> set (GetIPs (configPeers p)) then
             refreshNodes p w (Suc i) nodes latest lg
           else
             (let peerName = findPeerName (lookupOrder w i) nodeIP in
              if peerName = [] then
                refreshNodes p w (Suc i) nodes latest (lg @ [WarnPeerNotFoundInConfig nodeIP])
              else
                (let isActive = (ClusterNode.Pubkey node = hardcodedPubkey);
                     peerState = \<lparr> PeerState.IP = nodeIP,
                                   PeerState.Pubkey = ClusterNode.Pubkey node,
                                   LastSeenAtUTC = nowAtNode w i,
                                   LastSeenActive = isActive \<rparr>;
                     latest' = AList.update peerName peerState latest
                 in if length (configPeers p) = length latest' then Inr (latest', lg)
                    else refreshNodes p w (Suc i) nodes latest' lg))))"

text \<open>The closing loop: one warning for every visited peer without an observation.\<close>

fun warnMissing :: "Peers \<Rightarrow> PeerStates \<Rightarrow> LogLine list" where
  "warnMissing [] latest = []"
| "warnMissing ((name, peer) # rest) latest =
     (if map_of latest name = None
      then WarnPeerNotFoundInGossip name (Peer.IP peer) # warnMissing rest latest
      else warnMissing rest latest)"

text \<open>
  \<^verbatim>\<open>Refresh\<close>: the state that the call leaves and the lines it logs, or the panic that
  ends it. A call that panics leaves the state as it found it: the loop works on the
  local map \<^verbatim>\<open>latestPeerStatesByName\<close>, and the map and the instant of the state are
  assigned in the last statements only, or in the branch of the failed RPC, which returns.
\<close>

definition Refresh :: "World \<Rightarrow> State \<Rightarrow> panic + (State \<times> LogLine list)" where
  "Refresh w p =
     (case GetClusterNodes w of
        Inl err \<Rightarrow>
          Inr (p\<lparr> peerStatesByName := [], PeerStatesRefreshedAt := nowAtEnd w \<rparr>,
               [ErrorFailedToGetClusterNodes err])
      | Inr clusterNodes \<Rightarrow>
          (case refreshNodes p w 0 clusterNodes [] [] of
             Inl pn \<Rightarrow> Inl pn
           | Inr (latest, lg) \<Rightarrow>
               Inr (p\<lparr> peerStatesByName := latest, PeerStatesRefreshedAt := nowAtEnd w \<rparr>,
                    lg @ warnMissing (warnOrder w) latest)))"

text \<open>The queries; each loop returns at the first entry that answers it.\<close>

fun anyActive :: "PeerStates \<Rightarrow> bool" where
  "anyActive [] = False"
| "anyActive ((name, peer) # rest) = (if LastSeenActive peer then True else anyActive rest)"

definition HasActivePeer :: "State \<Rightarrow> bool" where
  "HasActivePeer p = anyActive (peerStatesByName p)"

fun anyActiveInTheLast :: "time \<Rightarrow> duration \<Rightarrow> PeerStates \<Rightarrow> bool" where
  "anyActiveInTheLast now d [] = False"
| "anyActiveInTheLast now d ((name, peer) # rest) =
     (if LastSeenActive peer \<and> time_Since now (LastSeenAtUTC peer) < d then True
      else anyActiveInTheLast now d rest)"

text \<open>\<open>now\<close> is the reading of the clock by \<^verbatim>\<open>time.Since\<close>, one instant for the call.\<close>

definition HasActivePeerInTheLast :: "time \<Rightarrow> State \<Rightarrow> duration \<Rightarrow> bool" where
  "HasActivePeerInTheLast now p d = anyActiveInTheLast now d (peerStatesByName p)"

section \<open>The local validator (internal/config/validator.go)\<close>

text \<open>
  A loaded key pair is a \<^verbatim>\<open>solanago.PrivateKey\<close>, a byte string; a key pair that has not
  been loaded is a nil pointer. The text of its public key, \<^verbatim>\<open>PublicKey().String()\<close>,
  comes from the key library and is a parameter \<open>pk\<close> of the functions that read it:
  \<open>pk key\<close> is \<open>None\<close> where \<^verbatim>\<open>PublicKey()\<close> panics, on a key that is not well formed
  (a private key has 64 bytes), and the text otherwise.
\<close>

type_synonym PrivateKey = string

record ValidatorIdentities =
  ActiveKeyPairFile :: string
  ActiveKeyPair :: "PrivateKey option"
  PassiveKeyPairFile :: string
  PassiveKeyPair :: "PrivateKey option"

record Validator =
  Name :: string
  RPCURL :: string
  PublicIPServiceURLs :: "string list"
  Identities :: ValidatorIdentities

text \<open>The errors that the validation builds with \<^verbatim>\<open>fmt.Errorf\<close>, one constructor a message.\<close>

datatype ConfigError =
    IdentitiesMustBeDifferent string
  | NameMustBeDefined
  | RPCURLMustBeValid
  | RPCURLParseError string
  | RPCURLInvalid string
  | PublicIPServiceURLParseError string
  | PublicIPServiceURLInvalid string

definition ValidatorIdentities_Validate ::
  "(PrivateKey \<Rightarrow> string option) \<Rightarrow> ValidatorIdentities \<Rightarrow> panic + ConfigError option" where
  "ValidatorIdentities_Validate pk v =
     (case ActiveKeyPair v of
        None \<Rightarrow> Inl NilPointerDereference
      | Some active \<Rightarrow>
          (case pk active of
             None \<Rightarrow> Inl BadPrivateKey
           | Some activeKey \<Rightarrow>
               (case PassiveKeyPair v of
                  None \<Rightarrow> Inl NilPointerDereference
                | Some passive \<Rightarrow>
                    (case pk passive of
                       None \<Rightarrow> Inl BadPrivateKey
                     | Some passiveKey \<Rightarrow>
                         Inr (if activeKey = passiveKey
                              then Some (IdentitiesMustBeDifferent activeKey)
                              else None)))))"

text \<open>
  What \<^verbatim>\<open>Validate\<close> reads of a parsed URL. The parser \<^verbatim>\<open>url.Parse\<close> of the standard
  library is a parameter \<open>parse\<close>, \<open>Inl\<close> its error.
\<close>

record URL =
  Scheme :: string
  Host :: string

text \<open>The loop over \<^verbatim>\<open>PublicIPServiceURLs\<close>: the error of the first URL that fails.\<close>

fun validatePublicIPServiceURLs :: "(string \<Rightarrow> string + URL) \<Rightarrow> string list \<Rightarrow> ConfigError option" where
  "validatePublicIPServiceURLs parse [] = None"
| "validatePublicIPServiceURLs parse (publicIPServiceURL # rest) =
     (case parse publicIPServiceURL of
        Inl err \<Rightarrow> Some (PublicIPServiceURLParseError err)
      | Inr parsedURL \<Rightarrow>
          if Scheme parsedURL = [] \<or> Host parsedURL = []
          then Some (PublicIPServiceURLInvalid publicIPServiceURL)
          else validatePublicIPServiceURLs parse rest)"

definition Validator_Validate ::
  "(PrivateKey \<Rightarrow> string option) \<Rightarrow> (string \<Rightarrow> string + URL) \<Rightarrow> Validator \<Rightarrow> panic + ConfigError option" where
  "Validator_Validate pk parse v =
     (if Validator.Name v = [] then Inr (Some NameMustBeDefined)
      else if RPCURL v = [] then Inr (Some RPCURLMustBeValid)
      else
        (case parse (RPCURL v) of
           Inl err \<Rightarrow> Inr (Some (RPCURLParseError err))
         | Inr parsedURL \<Rightarrow>
             if Scheme parsedURL = [] \<or> Host parsedURL = []
             then Inr (Some (RPCURLInvalid (RPCURL v)))
             else
               (case validatePublicIPServiceURLs parse (PublicIPServiceURLs v) of
                  Some err \<Rightarrow> Inr (Some err)
                | None \<Rightarrow>
                    if ActiveKeyPair (Identities v) \<noteq> None \<and> PassiveKeyPair (Identities v) \<noteq> None
                    then ValidatorIdentities_Validate pk (Identities v)
                    else Inr None)))"

subsection \<open>Public-IP discovery\<close>

text \<open>
  The functions of package \<^verbatim>\<open>strings\<close> that \<^verbatim>\<open>PublicIP\<close> calls, on byte strings.
  \<^verbatim>\<open>strings.Split(s, "\n")[0]\<close> is the text before the first line feed.
\<close>

definition firstLine :: "string \<Rightarrow> string" where
  "firstLine bodyStr = takeWhile (\<lambda>c. c \<noteq> CHR 0x0A) bodyStr"

text \<open>
  \<^verbatim>\<open>strings.TrimSpace\<close> removes the leading and trailing white space, as Unicode defines
  it: the six ASCII characters, and the code points U+0085, U+00A0, U+1680, U+2000 to
  U+200A, U+2028, U+2029, U+202F, U+205F and U+3000, which are two or three bytes in UTF-8.
\<close>

definition asciiSpace :: "char \<Rightarrow> bool" where
  "asciiSpace c = (c \<in> set [CHR 0x09, CHR 0x0A, CHR 0x0B, CHR 0x0C, CHR 0x0D, CHR 0x20])"

definition twoByteSpace :: "char \<Rightarrow> char \<Rightarrow> bool" where
  "twoByteSpace a b = (a = CHR 0xC2 \<and> (b = CHR 0x85 \<or> b = CHR 0xA0))"

definition threeByteSpace :: "char \<Rightarrow> char \<Rightarrow> char \<Rightarrow> bool" where
  "threeByteSpace a b c =
     ((a = CHR 0xE1 \<and> b = CHR 0x9A \<and> c = CHR 0x80) \<or>
      (a = CHR 0xE2 \<and> b = CHR 0x80 \<and>
         c \<in> set [CHR 0x80, CHR 0x81, CHR 0x82, CHR 0x83, CHR 0x84, CHR 0x85, CHR 0x86,
                  CHR 0x87, CHR 0x88, CHR 0x89, CHR 0x8A, CHR 0xA8, CHR 0xA9, CHR 0xAF]) \<or>
      (a = CHR 0xE2 \<and> b = CHR 0x81 \<and> c = CHR 0x9F) \<or>
      (a = CHR 0xE3 \<and> b = CHR 0x80 \<and> c = CHR 0x80))"

fun trimLeftSpace :: "string \<Rightarrow> string" where
  "trimLeftSpace [] = []"
| "trimLeftSpace [a] = (if asciiSpace a then [] else [a])"
| "trimLeftSpace [a, b] =
     (if asciiSpace a then trimLeftSpace [b]
      else if twoByteSpace a b then []
      else [a, b])"
| "trimLeftSpace (a # b # c # s) =
     (if asciiSpace a then trimLeftSpace (b # c # s)
      else if twoByteSpace a b then trimLeftSpace (c # s)
      else if threeByteSpace a b c then trimLeftSpace s
      else a # b # c # s)"

text \<open>The same from the end, on the reversed string: the last byte comes first.\<close>

fun trimLeftSpaceRev :: "string \<Rightarrow> string" where
  "trimLeftSpaceRev [] = []"
| "trimLeftSpaceRev [a] = (if asciiSpace a then [] else [a])"
| "trimLeftSpaceRev [a, b] =
     (if asciiSpace a then trimLeftSpaceRev [b]
      else if twoByteSpace b a then []
      else [a, b])"
| "trimLeftSpaceRev (a # b # c # s) =
     (if asciiSpace a then trimLeftSpaceRev (b # c # s)
      else if twoByteSpace b a then trimLeftSpaceRev (c # s)
      else if threeByteSpace c b a then trimLeftSpaceRev s
      else a # b # c # s)"

definition TrimSpace :: "string \<Rightarrow> string" where
  "TrimSpace s = rev (trimLeftSpaceRev (rev (trimLeftSpace s)))"

text \<open>
  \<^verbatim>\<open>strings.Trim(s, cutset)\<close> with a cutset of one ASCII byte \<open>c\<close>: all the trailing
  bytes \<open>c\<close> are removed, then all the leading ones.
\<close>

definition trimRightByte :: "string \<Rightarrow> char \<Rightarrow> string" where
  "trimRightByte s c = rev (dropWhile (\<lambda>x. x = c) (rev s))"

definition trimLeftByte :: "string \<Rightarrow> char \<Rightarrow> string" where
  "trimLeftByte s c = dropWhile (\<lambda>x. x = c) s"

definition Trim :: "string \<Rightarrow> char \<Rightarrow> string" where
  "Trim s c = trimLeftByte (trimRightByte s c) c"

text \<open>
  The outcome of one request to a service: \<^verbatim>\<open>http.Get\<close> fails, or reading the body
  fails, or the body is read. The world answers the request at position \<open>i\<close> of the list
  to URL \<open>url\<close> with \<open>http i url\<close>.
\<close>

datatype HttpOutcome = GetFailed | ReadFailed | Body string

text \<open>The candidate that the body of the loop of \<^verbatim>\<open>PublicIP\<close> computes from a body.\<close>

definition sanitizedIP :: "string \<Rightarrow> string" where
  "sanitizedIP bodyStr = Trim (Trim (TrimSpace (firstLine bodyStr)) (CHR 0x22)) (CHR 0x27)"




text \<open>
  The spec's words for the discovery: call each URL in order; accept the first response
  whose body's first line, after trim and dequote, parses as a valid IPv4 address; fail if
  none do.
\<close>

definition accepted :: "(string \<Rightarrow> bool) \<Rightarrow> HttpOutcome \<Rightarrow> bool" where
  "accepted isIPv4 outcome =
     (case outcome of Body bodyStr \<Rightarrow> isIPv4 (sanitizedIP bodyStr) | _ \<Rightarrow> False)"

definition firstAccepted ::
  "(string \<Rightarrow> bool) \<Rightarrow> (nat \<Rightarrow> string \<Rightarrow> HttpOutcome) \<Rightarrow> string list \<Rightarrow> (nat \<times> string) option" where
  "firstAccepted isIPv4 http urls =
     find (\<lambda>(i, url). accepted isIPv4 (http i url)) (enumerate 0 urls)"


section \<open>Command templates of a role (package config)\<close>

text \<open>
  Modelled from the spec: the file that declares \<^verbatim>\<open>Role\<close>, \<^verbatim>\<open>Hooks\<close>, \<^verbatim>\<open>Hook\<close> and
  \<^verbatim>\<open>RoleCommandTemplateData\<close> is not among the sources; the records have the fields that
  the tests of the package set and read. The spec fixes the variables of a template:
  ActiveIdentityKeypairFile, ActiveIdentityPubkey, PassiveIdentityKeypairFile and
  PassiveIdentityPubkey.
\<close>

record RoleCommandTemplateData =
  ActiveIdentityKeypairFile :: string
  ActiveIdentityPubkey :: string
  PassiveIdentityKeypairFile :: string
  PassiveIdentityPubkey :: string

record Hook =
  Name :: string
  Command :: string
  Args :: "string list"
  MustSucceed :: bool

record Hooks =
  Pre :: "Hook list"
  Post :: "Hook list"

record Role =
  Command :: string
  Args :: "string list"
  Hooks :: Hooks

definition templateVariables :: "string list" where
  "templateVariables =
     [''ActiveIdentityKeypairFile'', ''ActiveIdentityPubkey'',
      ''PassiveIdentityKeypairFile'', ''PassiveIdentityPubkey'']"

definition lookupVariable :: "RoleCommandTemplateData \<Rightarrow> string \<Rightarrow> string option" where
  "lookupVariable data name =
     (if name = ''ActiveIdentityKeypairFile'' then Some (ActiveIdentityKeypairFile data)
      else if name = ''ActiveIdentityPubkey'' then Some (ActiveIdentityPubkey data)
      else if name = ''PassiveIdentityKeypairFile'' then Some (PassiveIdentityKeypairFile data)
      else if name = ''PassiveIdentityPubkey'' then Some (PassiveIdentityPubkey data)
      else None)"

text \<open>
  Modelled from the spec: the renderer \<^verbatim>\<open>renderTemplateString\<close> is not among the sources.
  A template is text with references to variables, written \<^verbatim>\<open>{{.Variable}}\<close>, as in the
  tests, or with blanks inside the braces, as in the example script. The spec speaks of
  no other action between the braces, and the model rejects any. A template is cut into
  its pieces first; an action that is not closed fails there.
\<close>

datatype Piece = Text string | Variable string

datatype TemplateError =
    ActionNotClosed
  | ActionNotAVariable string
  | FailedToExecuteCommandTemplate string

definition identifierChar :: "char \<Rightarrow> bool" where
  "identifierChar c =
     (c \<in> set ''abcdefghijklmnopqrstuvwxyzABCDEFGHIJKLMNOPQRSTUVWXYZ0123456789_'')"

definition blank :: "char \<Rightarrow> bool" where
  "blank c = (c \<in> set [CHR 0x20, CHR 0x09, CHR 0x0D, CHR 0x0A])"

definition trimBlanks :: "string \<Rightarrow> string" where
  "trimBlanks s = rev (dropWhile blank (rev (dropWhile blank s)))"

definition actionOf :: "string \<Rightarrow> TemplateError + Piece" where
  "actionOf inside =
     (case trimBlanks inside of
        [] \<Rightarrow> Inl (ActionNotAVariable inside)
      | c # name \<Rightarrow>
          if c = CHR ''.'' \<and> name \<noteq> [] \<and> list_all identifierChar name
          then Inr (Variable name)
          else Inl (ActionNotAVariable inside))"

fun scanText :: "string \<Rightarrow> string \<Rightarrow> TemplateError + Piece list"
  and scanAction :: "string \<Rightarrow> string \<Rightarrow> TemplateError + Piece list" where
  "scanText acc [] = Inr [Text (rev acc)]"
| "scanText acc [c] = Inr [Text (rev (c # acc))]"
| "scanText acc (c # d # s) =
     (if c = CHR ''{'' \<and> d = CHR ''{'' then
        (case scanAction [] s of
           Inl err \<Rightarrow> Inl err
         | Inr pieces \<Rightarrow> Inr (Text (rev acc) # pieces))
      else scanText (c # acc) (d # s))"
| "scanAction acc [] = Inl ActionNotClosed"
| "scanAction acc [c] = Inl ActionNotClosed"
| "scanAction acc (c # d # s) =
     (if c = CHR ''}'' \<and> d = CHR ''}'' then
        (case actionOf (rev acc) of
           Inl err \<Rightarrow> Inl err
         | Inr piece \<Rightarrow>
             (case scanText [] s of
                Inl err \<Rightarrow> Inl err
              | Inr pieces \<Rightarrow> Inr (piece # pieces)))
      else scanAction (c # acc) (d # s))"

definition parseTemplate :: "string \<Rightarrow> TemplateError + Piece list" where
  "parseTemplate template = scanText [] template"

text \<open>
  The pieces are written out in order; the first variable outside the fixed set stops the
  rendering with an error (the spec: missing variable, rendering error).
\<close>

fun executeTemplate :: "RoleCommandTemplateData \<Rightarrow> Piece list \<Rightarrow> TemplateError + string" where
  "executeTemplate data [] = Inr []"
| "executeTemplate data (Text t # pieces) =
     (case executeTemplate data pieces of
        Inl err \<Rightarrow> Inl err
      | Inr rendered \<Rightarrow> Inr (t @ rendered))"
| "executeTemplate data (Variable name # pieces) =
     (case lookupVariable data name of
        None \<Rightarrow> Inl (FailedToExecuteCommandTemplate name)
      | Some v \<Rightarrow>
          (case executeTemplate data pieces of
             Inl err \<Rightarrow> Inl err
           | Inr rendered \<Rightarrow> Inr (v @ rendered)))"

definition renderTemplateString :: "RoleCommandTemplateData \<Rightarrow> string \<Rightarrow> TemplateError + string" where
  "renderTemplateString data template =
     (case parseTemplate template of
        Inl err \<Rightarrow> Inl err
      | Inr pieces \<Rightarrow> executeTemplate data pieces)"

text \<open>
  Modelled from the spec: \<^verbatim>\<open>RenderCommands\<close> is not among the sources. It renders the
  command of the role and its arguments, then the commands and arguments of the hooks, as
  the test \<^verbatim>\<open>TestRole_RenderCommands\<close> expects, and returns the role with the rendered
  texts, or the first error; the error for the command and the arguments of the role is
  the one the test \<^verbatim>\<open>TestRole_RenderCommandsWithInvalidTemplate\<close> expects.
\<close>

datatype RenderError =
    FailedToRenderCommandAndArgs TemplateError
  | FailedToRenderHooks TemplateError

fun renderStrings :: "RoleCommandTemplateData \<Rightarrow> string list \<Rightarrow> TemplateError + string list" where
  "renderStrings data [] = Inr []"
| "renderStrings data (template # rest) =
     (case renderTemplateString data template of
        Inl err \<Rightarrow> Inl err
      | Inr rendered \<Rightarrow>
          (case renderStrings data rest of
             Inl err \<Rightarrow> Inl err
           | Inr renderedRest \<Rightarrow> Inr (rendered # renderedRest)))"

definition renderHook :: "RoleCommandTemplateData \<Rightarrow> Hook \<Rightarrow> TemplateError + Hook" where
  "renderHook data hook =
     (case renderTemplateString data (Hook.Command hook) of
        Inl err \<Rightarrow> Inl err
      | Inr command \<Rightarrow>
          (case renderStrings data (Hook.Args hook) of
             Inl err \<Rightarrow> Inl err
           | Inr args \<Rightarrow> Inr (hook\<lparr> Hook.Command := command, Hook.Args := args \<rparr>)))"

fun renderHooks :: "RoleCommandTemplateData \<Rightarrow> Hook list \<Rightarrow> TemplateError + Hook list" where
  "renderHooks data [] = Inr []"
| "renderHooks data (hook # rest) =
     (case renderHook data hook of
        Inl err \<Rightarrow> Inl err
      | Inr rendered \<Rightarrow>
          (case renderHooks data rest of
             Inl err \<Rightarrow> Inl err
           | Inr renderedRest \<Rightarrow> Inr (rendered # renderedRest)))"

definition RenderCommands :: "RoleCommandTemplateData \<Rightarrow> Role \<Rightarrow> RenderError + Role" where
  "RenderCommands data role =
     (case renderTemplateString data (Role.Command role) of
        Inl err \<Rightarrow> Inl (FailedToRenderCommandAndArgs err)
      | Inr command \<Rightarrow>
          (case renderStrings data (Role.Args role) of
             Inl err \<Rightarrow> Inl (FailedToRenderCommandAndArgs err)
           | Inr args \<Rightarrow>
               (case renderHooks data (Pre (Role.Hooks role)) of
                  Inl err \<Rightarrow> Inl (FailedToRenderHooks err)
                | Inr pre \<Rightarrow>
                    (case renderHooks data (Post (Role.Hooks role)) of
                       Inl err \<Rightarrow> Inl (FailedToRenderHooks err)
                     | Inr post \<Rightarrow>
                         Inr (role\<lparr> Role.Command := command, Role.Args := args,
                                   Role.Hooks := \<lparr> Pre = pre, Post = post \<rparr> \<rparr>)))))"

text \<open>A template refers to a variable when one of its pieces is that variable.\<close>

definition refersTo :: "string \<Rightarrow> string \<Rightarrow> bool" where
  "refersTo template name =
     (case parseTemplate template of
        Inl err \<Rightarrow> False
      | Inr pieces \<Rightarrow> Variable name \<in> set pieces)"

section \<open>Notions used to state the properties of the gossip state\<close>

text \<open>The observation that the body of the loop of \<^verbatim>\<open>Refresh\<close> builds for the node at a position.\<close>

definition observation :: "World \<Rightarrow> nat \<Rightarrow> ClusterNode \<Rightarrow> string \<Rightarrow> PeerState" where
  "observation w i node nodeIP =
     \<lparr> PeerState.IP = nodeIP, PeerState.Pubkey = ClusterNode.Pubkey node,
       LastSeenAtUTC = nowAtNode w i, LastSeenActive = (ClusterNode.Pubkey node = hardcodedPubkey) \<rparr>"

text \<open>The entries that the nodes of a response can contribute to the observation map.\<close>

definition fromNodes :: "State \<Rightarrow> World \<Rightarrow> ClusterNode list \<Rightarrow> (string \<times> PeerState) set" where
  "fromNodes p w nodes =
     {(name, obs). \<exists>j node gossip. node \<in> set nodes \<and> Gossip node = Some gossip \<and>
        hostOf gossip \<in> set (GetIPs (configPeers p)) \<and>
        name = findPeerName (lookupOrder w j) (hostOf gossip) \<and> name \<noteq> [] \<and>
        obs = observation w j node (hostOf gossip)}"

text \<open>
  An observation map agrees with the configured peers: its keys are distinct, each is the
  name of a configured peer, and the observation under it has that peer's IP.
\<close>

definition consistent :: "Peers \<Rightarrow> PeerStates \<Rightarrow> bool" where
  "consistent cfg latest =
     (distinct (map fst latest) \<and>
      (\<forall>(name, obs) \<in> set latest.
         \<exists>peer. map_of cfg name = Some peer \<and> Peer.IP peer = PeerState.IP obs))"

section \<open>Notions used to state the properties of the validation\<close>

text \<open>A URL that parses with a scheme and a host, the check that \<^verbatim>\<open>Validate\<close> makes.\<close>

definition validURL :: "(string \<Rightarrow> string + URL) \<Rightarrow> string \<Rightarrow> bool" where
  "validURL parse u = (case parse u of Inl err \<Rightarrow> False | Inr parsedURL \<Rightarrow> Scheme parsedURL \<noteq> [] \<and> Host parsedURL \<noteq> [])"

section \<open>Notions used to state the properties of the public-IP discovery\<close>









section \<open>A concrete cluster\<close>

text \<open>
  Three configured peers, as in the tests of the configuration package, and a response of
  the directory with the first two of them and a node that is no peer. The first node
  carries the configured active public key.
\<close>

definition examplePeers :: Peers where
  "examplePeers =
     [(''validator-1'', \<lparr> Peer.Name = ''validator-1'', Peer.IP = ''192.168.1.10'' \<rparr>),
      (''validator-2'', \<lparr> Peer.Name = ''validator-2'', Peer.IP = ''192.168.1.11'' \<rparr>),
      (''validator-3'', \<lparr> Peer.Name = ''validator-3'', Peer.IP = ''192.168.1.12'' \<rparr>)]"

definition exampleActivePubkey :: string where
  "exampleActivePubkey = ''ArkzFExXXHaA6izkNhTJJ5zpXdQpynffjfRMJu4Yq6H''"

definition exampleState :: State where
  "exampleState =
     \<lparr> PeerStatesRefreshedAt = 1000,
       peerStatesByName =
         [(''validator-3'', \<lparr> PeerState.IP = ''192.168.1.12'', PeerState.Pubkey = hardcodedPubkey,
                              LastSeenAtUTC = 1000, LastSeenActive = True \<rparr>)],
       configPeers = examplePeers,
       activePubkey = exampleActivePubkey,
       selfIP = ''192.168.1.11'' \<rparr>"

definition exampleNodes :: "ClusterNode list" where
  "exampleNodes =
     [\<lparr> ClusterNode.Pubkey = exampleActivePubkey, Gossip = Some ''192.168.1.10:8001'' \<rparr>,
      \<lparr> ClusterNode.Pubkey = ''11111111111111111111111111111111'', Gossip = Some ''10.0.0.9:8001'' \<rparr>,
      \<lparr> ClusterNode.Pubkey = ''AP4JyZq2vuN4u64FGFHTwdG11xHu1vZWVYQj21MPLrnw'',
        Gossip = Some ''192.168.1.11:8001'' \<rparr>]"

definition exampleWorld :: World where
  "exampleWorld =
     \<lparr> GetClusterNodes = Inr exampleNodes, nowAtNode = (\<lambda>i. 5000 + int i), nowAtEnd = 5010,
       lookupOrder = (\<lambda>i. examplePeers), warnOrder = examplePeers \<rparr>"

definition failedWorld :: World where
  "failedWorld =
     \<lparr> GetClusterNodes = Inl ''connection refused'', nowAtNode = (\<lambda>i. 5000 + int i), nowAtEnd = 5010,
       lookupOrder = (\<lambda>i. examplePeers), warnOrder = examplePeers \<rparr>"

text \<open>The state that \<^verbatim>\<open>Refresh\<close> leaves in the concrete cluster.\<close>

definition exampleRefreshed :: State where
  "exampleRefreshed =
     \<lparr> PeerStatesRefreshedAt = 5010,
       peerStatesByName =
         [(''validator-1'', \<lparr> PeerState.IP = ''192.168.1.10'', PeerState.Pubkey = exampleActivePubkey,
                              LastSeenAtUTC = 5000, LastSeenActive = False \<rparr>),
          (''validator-2'', \<lparr> PeerState.IP = ''192.168.1.11'',
                              PeerState.Pubkey = ''AP4JyZq2vuN4u64FGFHTwdG11xHu1vZWVYQj21MPLrnw'',
                              LastSeenAtUTC = 5002, LastSeenActive = False \<rparr>)],
       configPeers = examplePeers,
       activePubkey = exampleActivePubkey,
       selfIP = ''192.168.1.11'' \<rparr>"

section \<open>A concrete validator\<close>

text \<open>
  Four services, the defaults of the package. The first cannot be reached. The second
  answers with an address in double quotes inside single quotes. The third answers with
  two lines, the first of them a space, an address in single quotes inside double
  quotes, a no-break space and a carriage return. Stand-ins for the library functions on the inputs at hand: the two addresses
  parse as IPv4, the URLs of the local RPC and of the services parse with scheme and
  host, and a private key is well formed when it has 64 bytes, the second half being
  the public key, whose text is taken to be these 32 bytes.
\<close>

definition exampleServices :: "string list" where
  "exampleServices =
     [''https://api.ipify.org'', ''https://checkip.amazonaws.com'',
      ''https://ipinfo.io/ip'', ''https://4.icanhazip.com'']"



definition exampleParse :: "string \<Rightarrow> string + URL" where
  "exampleParse s =
     (if s = ''http://localhost:8899''
      then Inr \<lparr> Scheme = ''http'', Host = ''localhost:8899'' \<rparr>
      else if s \<in> set exampleServices
      then Inr \<lparr> Scheme = ''https'', Host = takeWhile (\<lambda>c. c \<noteq> CHR ''/'') (drop 8 s) \<rparr>
      else Inl ''parse error'')"

definition examplePk :: "PrivateKey \<Rightarrow> string option" where
  "examplePk key = (if length key = 64 then Some (drop 32 key) else None)"

definition exampleKeyA1 :: PrivateKey where
  "exampleKeyA1 = replicate 32 (CHR ''1'') @ replicate 32 (CHR ''A'')"

definition exampleKeyA2 :: PrivateKey where
  "exampleKeyA2 = replicate 32 (CHR ''2'') @ replicate 32 (CHR ''A'')"

definition exampleKeyB :: PrivateKey where
  "exampleKeyB = replicate 32 (CHR ''3'') @ replicate 32 (CHR ''B'')"

definition exampleValidator :: Validator where
  "exampleValidator =
     \<lparr> Validator.Name = ''test-validator'', RPCURL = ''http://localhost:8899'',
       PublicIPServiceURLs = exampleServices,
       Identities = \<lparr> ActiveKeyPairFile = ''active.json'', ActiveKeyPair = None,
                      PassiveKeyPairFile = ''passive.json'', PassiveKeyPair = None \<rparr> \<rparr>"

section \<open>A concrete role\<close>

text \<open>The role and the data of the test \<^verbatim>\<open>TestRole_RenderCommands\<close>.\<close>

definition exampleTemplateData :: RoleCommandTemplateData where
  "exampleTemplateData =
     \<lparr> ActiveIdentityKeypairFile = ''/path/to/active.json'',
       ActiveIdentityPubkey = ''active-pubkey'',
       PassiveIdentityKeypairFile = ''/path/to/passive.json'',
       PassiveIdentityPubkey = ''passive-pubkey'' \<rparr>"

definition exampleRole :: Role where
  "exampleRole =
     \<lparr> Role.Command = ''systemctl {{.ActiveIdentityPubkey}}'',
       Role.Args = [''--identity'', ''{{.ActiveIdentityKeypairFile}}''],
       Role.Hooks =
         \<lparr> Pre = [\<lparr> Hook.Name = ''pre-hook'',
                     Hook.Command = ''echo '' @ [CHR 0x27] @ ''{{.PassiveIdentityPubkey}}'' @ [CHR 0x27],
                     Hook.Args = [], MustSucceed = False \<rparr>],
           Post = [\<lparr> Hook.Name = ''post-hook'',
                      Hook.Command =
                        ''echo '' @ [CHR 0x27] @ ''{{.PassiveIdentityKeypairFile}}'' @ [CHR 0x27],
                      Hook.Args = [], MustSucceed = False \<rparr>] \<rparr> \<rparr>"

section \<open>The refresh loop\<close>

lemma set_update_subset: "set (AList.update k v al) \<subseteq> insert (k, v) (set al)"
  by (induction al) auto

lemma update_mem: "(k, v) \<in> set (AList.update k v al)"
  by (induction al) auto

lemma findPeerName_found:
  "findPeerName order nodeIP \<noteq> [] \<Longrightarrow>
     \<exists>peer. (findPeerName order nodeIP, peer) \<in> set order \<and> Peer.IP peer = nodeIP"
  by (induction order nodeIP rule: findPeerName.induct) auto


lemma refreshNodes_Nil: "refreshNodes p w i [] latest lg = Inr (latest, lg)"
  by simp

lemma refreshNodes_nil_gossip:
  "Gossip node = None \<Longrightarrow> refreshNodes p w i (node # nodes) latest lg = Inl NilPointerDereference"
  by simp

lemma refreshNodes_unmatched:
  "Gossip node = Some gossip \<Longrightarrow> hostOf gossip \<notin> set (GetIPs (configPeers p)) \<Longrightarrow>
     refreshNodes p w i (node # nodes) latest lg = refreshNodes p w (Suc i) nodes latest lg"
  by simp

lemma refreshNodes_noname:
  "Gossip node = Some gossip \<Longrightarrow> hostOf gossip \<in> set (GetIPs (configPeers p)) \<Longrightarrow>
   findPeerName (lookupOrder w i) (hostOf gossip) = [] \<Longrightarrow>
     refreshNodes p w i (node # nodes) latest lg =
       refreshNodes p w (Suc i) nodes latest (lg @ [WarnPeerNotFoundInConfig (hostOf gossip)])"
  by simp

lemma refreshNodes_stop:
  "Gossip node = Some gossip \<Longrightarrow> hostOf gossip \<in> set (GetIPs (configPeers p)) \<Longrightarrow>
   findPeerName (lookupOrder w i) (hostOf gossip) = name \<Longrightarrow> name \<noteq> [] \<Longrightarrow>
   length (configPeers p) = length (AList.update name (observation w i node (hostOf gossip)) latest) \<Longrightarrow>
     refreshNodes p w i (node # nodes) latest lg =
       Inr (AList.update name (observation w i node (hostOf gossip)) latest, lg)"
  by (simp add: observation_def)

lemma refreshNodes_go:
  "Gossip node = Some gossip \<Longrightarrow> hostOf gossip \<in> set (GetIPs (configPeers p)) \<Longrightarrow>
   findPeerName (lookupOrder w i) (hostOf gossip) = name \<Longrightarrow> name \<noteq> [] \<Longrightarrow>
   length (configPeers p) \<noteq> length (AList.update name (observation w i node (hostOf gossip)) latest) \<Longrightarrow>
     refreshNodes p w i (node # nodes) latest lg =
       refreshNodes p w (Suc i) nodes (AList.update name (observation w i node (hostOf gossip)) latest) lg"
  by (simp add: observation_def)

lemma refreshNodes_run_induct [consumes 1, case_names finished unmatched noname stop go]:
  assumes run: "refreshNodes p w i nodes latest lg = Inr res"
    and finished: "\<And>i latest lg. P i [] latest lg (latest, lg)"
    and unmatched: "\<And>i node nodes latest lg gossip res.
       Gossip node = Some gossip \<Longrightarrow> hostOf gossip \<notin> set (GetIPs (configPeers p)) \<Longrightarrow>
       refreshNodes p w (Suc i) nodes latest lg = Inr res \<Longrightarrow>
       P (Suc i) nodes latest lg res \<Longrightarrow> P i (node # nodes) latest lg res"
    and noname: "\<And>i node nodes latest lg gossip res.
       Gossip node = Some gossip \<Longrightarrow> hostOf gossip \<in> set (GetIPs (configPeers p)) \<Longrightarrow>
       findPeerName (lookupOrder w i) (hostOf gossip) = [] \<Longrightarrow>
       refreshNodes p w (Suc i) nodes latest (lg @ [WarnPeerNotFoundInConfig (hostOf gossip)]) = Inr res \<Longrightarrow>
       P (Suc i) nodes latest (lg @ [WarnPeerNotFoundInConfig (hostOf gossip)]) res \<Longrightarrow>
       P i (node # nodes) latest lg res"
    and stop: "\<And>i node nodes latest lg gossip name.
       Gossip node = Some gossip \<Longrightarrow> hostOf gossip \<in> set (GetIPs (configPeers p)) \<Longrightarrow>
       findPeerName (lookupOrder w i) (hostOf gossip) = name \<Longrightarrow> name \<noteq> [] \<Longrightarrow>
       length (configPeers p) = length (AList.update name (observation w i node (hostOf gossip)) latest) \<Longrightarrow>
       P i (node # nodes) latest lg (AList.update name (observation w i node (hostOf gossip)) latest, lg)"
    and go: "\<And>i node nodes latest lg gossip name res.
       Gossip node = Some gossip \<Longrightarrow> hostOf gossip \<in> set (GetIPs (configPeers p)) \<Longrightarrow>
       findPeerName (lookupOrder w i) (hostOf gossip) = name \<Longrightarrow> name \<noteq> [] \<Longrightarrow>
       length (configPeers p) \<noteq> length (AList.update name (observation w i node (hostOf gossip)) latest) \<Longrightarrow>
       refreshNodes p w (Suc i) nodes (AList.update name (observation w i node (hostOf gossip)) latest) lg = Inr res \<Longrightarrow>
       P (Suc i) nodes (AList.update name (observation w i node (hostOf gossip)) latest) lg res \<Longrightarrow>
       P i (node # nodes) latest lg res"
  shows "P i nodes latest lg res"
  using run
proof (induction nodes arbitrary: i latest lg)
  case Nil
  then show ?case using finished by auto
next
  case (Cons node nodes)
  show ?case
  proof (cases "Gossip node")
    case None
    with Cons.prems show ?thesis by simp
  next
    case (Some gossip)
    let ?ip = "hostOf gossip"
    let ?name = "findPeerName (lookupOrder w i) ?ip"
    let ?latest2 = "AList.update ?name (observation w i node ?ip) latest"
    consider (a) "?ip \<notin> set (GetIPs (configPeers p))"
      | (b) "?ip \<in> set (GetIPs (configPeers p))" "?name = []"
      | (c) "?ip \<in> set (GetIPs (configPeers p))" "?name \<noteq> []"
          "length (configPeers p) = length ?latest2"
      | (d) "?ip \<in> set (GetIPs (configPeers p))" "?name \<noteq> []"
          "length (configPeers p) \<noteq> length ?latest2"
      by blast
    then show ?thesis
    proof cases
      case a
      from Cons.prems have "refreshNodes p w (Suc i) nodes latest lg = Inr res"
        by (simp only: refreshNodes_unmatched [OF Some a])
      from unmatched [OF Some a this Cons.IH [OF this]] show ?thesis .
    next
      case b
      from Cons.prems have
        "refreshNodes p w (Suc i) nodes latest (lg @ [WarnPeerNotFoundInConfig ?ip]) = Inr res"
        by (simp only: refreshNodes_noname [OF Some b])
      from noname [OF Some b this Cons.IH [OF this]] show ?thesis .
    next
      case c
      from Cons.prems have "res = (?latest2, lg)"
        by (simp only: refreshNodes_stop [OF Some c(1) refl c(2,3)] sum.inject)
      with stop [OF Some c(1) refl c(2,3)] show ?thesis by simp
    next
      case d
      from Cons.prems have "refreshNodes p w (Suc i) nodes ?latest2 lg = Inr res"
        by (simp only: refreshNodes_go [OF Some d(1) refl d(2,3)])
      from go [OF Some d(1) refl d(2,3) this Cons.IH [OF this]] show ?thesis .
    qed
  qed
qed


lemma fromNodes_Cons: "fromNodes p w nodes \<subseteq> fromNodes p w (node # nodes)"
  unfolding fromNodes_def by auto

lemma fromNodes_head:
  "Gossip node = Some gossip \<Longrightarrow> hostOf gossip \<in> set (GetIPs (configPeers p)) \<Longrightarrow>
   findPeerName (lookupOrder w i) (hostOf gossip) = name \<Longrightarrow> name \<noteq> [] \<Longrightarrow>
     (name, observation w i node (hostOf gossip)) \<in> fromNodes p w (node # nodes)"
  unfolding fromNodes_def by auto

lemma refreshNodes_entries:
  assumes "refreshNodes p w i nodes latest lg = Inr res"
  shows "set (fst res) \<subseteq> set latest \<union> fromNodes p w nodes"
  using assms
proof (induction rule: refreshNodes_run_induct)
  case (finished i latest lg)
  then show ?case by simp
next
  case (unmatched i node nodes latest lg gossip res)
  then show ?case using fromNodes_Cons [of p w nodes node] by blast
next
  case (noname i node nodes latest lg gossip res)
  then show ?case using fromNodes_Cons [of p w nodes node] by blast
next
  case (stop i node nodes latest lg gossip name)
  then show ?case
    using set_update_subset [of name "observation w i node (hostOf gossip)" latest]
      fromNodes_head [of node gossip p w i name nodes] by auto
next
  case (go i node nodes latest lg gossip name res)
  then show ?case
    using set_update_subset [of name "observation w i node (hostOf gossip)" latest]
      fromNodes_head [of node gossip p w i name nodes] fromNodes_Cons [of p w nodes node]
    by blast
qed




lemma visitOf_set: "visitOf cfg order \<Longrightarrow> set order = set cfg"
  unfolding visitOf_def by (rule mset_eq_setD)

lemma findPeerName_configured:
  assumes "goMap cfg" "visitOf cfg order" "findPeerName order nodeIP = name" "name \<noteq> []"
  shows "\<exists>peer. map_of cfg name = Some peer \<and> Peer.IP peer = nodeIP"
proof -
  from findPeerName_found [of order nodeIP] assms(3,4)
  obtain peer where "(name, peer) \<in> set order" "Peer.IP peer = nodeIP" by auto
  with visitOf_set [OF assms(2)] have "(name, peer) \<in> set cfg" by simp
  with assms(1) have "map_of cfg name = Some peer" by (simp add: goMap_def)
  with \<open>Peer.IP peer = nodeIP\<close> show ?thesis by blast
qed

lemma consistent_Nil: "consistent cfg []"
  by (simp add: consistent_def)

lemma consistent_update:
  assumes "consistent cfg latest" "map_of cfg name = Some peer" "Peer.IP peer = PeerState.IP obs"
  shows "consistent cfg (AList.update name obs latest)"
proof -
  have "distinct (map fst (AList.update name obs latest))"
    using assms(1) by (simp add: consistent_def distinct_update)
  moreover have "\<exists>peer. map_of cfg n = Some peer \<and> Peer.IP peer = PeerState.IP ob"
    if "(n, ob) \<in> set (AList.update name obs latest)" for n ob
  proof -
    from that set_update_subset [of name obs latest]
    have "(n, ob) = (name, obs) \<or> (n, ob) \<in> set latest" by auto
    then show ?thesis using assms by (auto simp: consistent_def)
  qed
  ultimately show ?thesis by (auto simp: consistent_def)
qed

lemma refreshNodes_consistent:
  assumes "refreshNodes p w i nodes latest lg = Inr res"
    and "goMap (configPeers p)" and "\<And>j. visitOf (configPeers p) (lookupOrder w j)"
    and "consistent (configPeers p) latest"
  shows "consistent (configPeers p) (fst res)"
  using assms(1,4)
proof (induction rule: refreshNodes_run_induct)
  case (stop i node nodes latest lg gossip name)
  from findPeerName_configured [OF assms(2) assms(3) stop.hyps(3,4)]
  obtain peer where "map_of (configPeers p) name = Some peer" "Peer.IP peer = hostOf gossip"
    by blast
  then show ?case using stop.prems
    by (simp add: consistent_update observation_def)
next
  case (go i node nodes latest lg gossip name res)
  from findPeerName_configured [OF assms(2) assms(3) go.hyps(3,4)]
  obtain peer where "map_of (configPeers p) name = Some peer" "Peer.IP peer = hostOf gossip"
    by blast
  then show ?case using go.prems go.IH
    by (simp add: consistent_update observation_def)
qed simp_all

lemma refreshNodes_returns:
  "\<forall>node \<in> set nodes. Gossip node \<noteq> None \<Longrightarrow> \<exists>res. refreshNodes p w i nodes latest lg = Inr res"
proof (induction nodes arbitrary: i latest lg)
  case Nil
  then show ?case by simp
next
  case (Cons node nodes)
  then obtain gossip where g: "Gossip node = Some gossip" by auto
  from Cons have IH: "\<exists>res. refreshNodes p w i nodes latest lg = Inr res" for i latest lg
    by simp
  show ?case using g IH by (simp add: Let_def)
qed






lemma anyActive_iff:
  "anyActive states = (\<exists>(name, peer) \<in> set states. LastSeenActive peer)"
  by (induction states rule: anyActive.induct) auto

lemma anyActiveInTheLast_iff:
  "anyActiveInTheLast now d states =
     (\<exists>(name, peer) \<in> set states. LastSeenActive peer \<and> time_Since now (LastSeenAtUTC peer) < d)"
  by (induction now d states rule: anyActiveInTheLast.induct) auto

lemma time_Since_exact:
  "minDuration \<le> now - t \<Longrightarrow> now - t \<le> maxDuration \<Longrightarrow> time_Since now t = now - t"
  by (simp add: time_Since_def time_Sub_def)

lemma time_Since_less_iff:
  "minDuration < d \<Longrightarrow> d \<le> maxDuration \<Longrightarrow> time_Since now t < d \<longleftrightarrow> now - t < d"
  by (auto simp: time_Since_def time_Sub_def)


lemma hostOf_no_port: "CHR '':'' \<notin> set gossip \<Longrightarrow> hostOf gossip = gossip"
  by (auto simp: hostOf_def)



lemma Refresh_returns:
  assumes "\<And>nodes. GetClusterNodes w = Inr nodes \<Longrightarrow> \<forall>node \<in> set nodes. Gossip node \<noteq> None"
  shows "\<exists>p' lg. Refresh w p = Inr (p', lg)"
proof (cases "GetClusterNodes w")
  case (Inl err)
  then show ?thesis by (simp add: Refresh_def)
next
  case (Inr nodes)
  from refreshNodes_returns [OF assms [OF Inr], of p w 0 "[]" "[]"]
  obtain res where "refreshNodes p w 0 nodes [] [] = Inr res" by blast
  with Inr show ?thesis by (cases res) (simp add: Refresh_def)
qed

lemma Refresh_Inr_D:
  assumes "Refresh w p = Inr (p', lg)"
  shows "(\<exists>err. GetClusterNodes w = Inl err \<and>
            p' = p\<lparr> peerStatesByName := [], PeerStatesRefreshedAt := nowAtEnd w \<rparr> \<and>
            lg = [ErrorFailedToGetClusterNodes err]) \<or>
         (\<exists>nodes latest lg0. GetClusterNodes w = Inr nodes \<and>
            refreshNodes p w 0 nodes [] [] = Inr (latest, lg0) \<and>
            p' = p\<lparr> peerStatesByName := latest, PeerStatesRefreshedAt := nowAtEnd w \<rparr> \<and>
            lg = lg0 @ warnMissing (warnOrder w) latest)"
proof (cases "GetClusterNodes w")
  case (Inl err)
  with assms show ?thesis by (auto simp: Refresh_def)
next
  case (Inr nodes)
  show ?thesis
  proof (cases "refreshNodes p w 0 nodes [] []")
    case (Inl pn)
    with assms Inr show ?thesis by (simp add: Refresh_def)
  next
    case r: (Inr res)
    obtain latest lg0 where "res = (latest, lg0)" by (cases res)
    with assms Inr r show ?thesis by (auto simp: Refresh_def)
  qed
qed

lemma refreshNodes_ignores_old:
  "refreshNodes (p\<lparr> peerStatesByName := old, PeerStatesRefreshedAt := t \<rparr>) w i nodes latest lg
      = refreshNodes p w i nodes latest lg"
  by (induction nodes arbitrary: i latest lg) (simp_all add: Let_def split: option.splits)

lemma Refresh_ignores_old:
  "Refresh w (p\<lparr> peerStatesByName := old, PeerStatesRefreshedAt := t \<rparr>) = Refresh w p"
proof -
  have upd: "p\<lparr> peerStatesByName := old, PeerStatesRefreshedAt := t,
       peerStatesByName := m, PeerStatesRefreshedAt := u \<rparr> =
     p\<lparr> peerStatesByName := m, PeerStatesRefreshedAt := u \<rparr>" for m u
    by (cases p) simp
  show ?thesis
    unfolding Refresh_def refreshNodes_ignores_old upd ..
qed

lemma fromNodes_D:
  assumes "(name, obs) \<in> fromNodes p w nodes"
  shows "\<exists>j node gossip. node \<in> set nodes \<and> Gossip node = Some gossip \<and>
           hostOf gossip \<in> set (GetIPs (configPeers p)) \<and>
           findPeerName (lookupOrder w j) (hostOf gossip) = name \<and> name \<noteq> [] \<and>
           PeerState.IP obs = hostOf gossip \<and> PeerState.Pubkey obs = ClusterNode.Pubkey node \<and>
           LastSeenAtUTC obs = nowAtNode w j \<and>
           LastSeenActive obs = (PeerState.Pubkey obs = hardcodedPubkey)"
  using assms unfolding fromNodes_def observation_def by fastforce





text \<open>
  The answers of the queries do not depend on the order in which the observation map is
  visited.
\<close>

lemma anyActive_any_order:
  "visitOf states order \<Longrightarrow> anyActive order = anyActive states"
  by (simp add: anyActive_iff visitOf_set)

lemma anyActiveInTheLast_any_order:
  "visitOf states order \<Longrightarrow> anyActiveInTheLast now d order = anyActiveInTheLast now d states"
  by (simp add: anyActiveInTheLast_iff visitOf_set)

text \<open>
  Whatever the configured active public key, an observation is flagged active exactly
  when its public key is the literal of the source.
\<close>

lemma Refresh_active_flag:
  assumes "Refresh w p = Inr (p', lg)" "(name, obs) \<in> set (peerStatesByName p')"
  shows "LastSeenActive obs \<longleftrightarrow> PeerState.Pubkey obs = hardcodedPubkey"
proof -
  from Refresh_Inr_D [OF assms(1)] assms(2) obtain nodes latest lg0 where
    run: "refreshNodes p w 0 nodes [] [] = Inr (latest, lg0)" and "peerStatesByName p' = latest"
    by auto
  with refreshNodes_entries [OF run] assms(2) have "(name, obs) \<in> fromNodes p w nodes"
    by auto
  from fromNodes_D [OF this] show ?thesis by blast
qed




lemma observation_IP [simp]: "PeerState.IP (observation w i node ip) = ip"
  by (simp add: observation_def)



text \<open>
  For every call that returns, the refreshed-at instant is the reading of the clock at the
  end of the call, and every observation of the new map was built in this call.
\<close>

lemma Refresh_returning_replaces_map:
  assumes "Refresh w p = Inr (p', lg)"
  shows "PeerStatesRefreshedAt p' = nowAtEnd w"
    and "(name, obs) \<in> set (peerStatesByName p') \<Longrightarrow>
      \<exists>nodes node gossip j. GetClusterNodes w = Inr nodes \<and> node \<in> set nodes \<and>
        Gossip node = Some gossip \<and> PeerState.IP obs = hostOf gossip \<and>
        PeerState.Pubkey obs = ClusterNode.Pubkey node \<and> LastSeenAtUTC obs = nowAtNode w j"
proof -
  show "PeerStatesRefreshedAt p' = nowAtEnd w"
    using Refresh_Inr_D [OF assms] by auto
  assume mem: "(name, obs) \<in> set (peerStatesByName p')"
  from Refresh_Inr_D [OF assms] mem obtain nodes latest lg0 where
    l: "GetClusterNodes w = Inr nodes" "refreshNodes p w 0 nodes [] [] = Inr (latest, lg0)"
      "peerStatesByName p' = latest" by auto
  from refreshNodes_entries [OF l(2)] mem l(3) have "(name, obs) \<in> fromNodes p w nodes"
    by auto
  from fromNodes_D [OF this] l(1)
  show "\<exists>nodes node gossip j. GetClusterNodes w = Inr nodes \<and> node \<in> set nodes \<and>
        Gossip node = Some gossip \<and> PeerState.IP obs = hostOf gossip \<and>
        PeerState.Pubkey obs = ClusterNode.Pubkey node \<and> LastSeenAtUTC obs = nowAtNode w j"
    by blast
qed


section \<open>Properties of the gossip state\<close>

lemma example_Refresh:
  "Refresh exampleWorld exampleState =
     Inr (exampleRefreshed, [WarnPeerNotFoundInGossip ''validator-3'' ''192.168.1.12''])"
  by (simp add: Refresh_def exampleWorld_def exampleState_def exampleRefreshed_def exampleNodes_def
      examplePeers_def GetIPs_def hostOf_def hardcodedPubkey_def exampleActivePubkey_def)

lemma example_visits:
  "visitOf (configPeers exampleState) (lookupOrder exampleWorld j)"
  "visitOf (configPeers exampleState) (warnOrder exampleWorld)"
  by (simp_all add: visitOf_def exampleState_def exampleWorld_def)

lemma example_config:
  "goMap (configPeers exampleState)" "[] \<notin> fst ` set (configPeers exampleState)"
  by (simp_all add: goMap_def exampleState_def examplePeers_def)


text \<open>
  C1. The claim: an observation is flagged active exactly when the observed public key is
  the configured active public key. The source compares with a literal instead. In the
  concrete cluster the node of validator-1 carries the configured active public key, and
  after the refresh its observation is not flagged active and no active peer is seen;
  and when the only node returned is one of validator-2 that carries the literal, which
  is not the configured active public key, its observation is flagged active.
\<close>

theorem Refresh_compares_with_literal:
  "activePubkey exampleState = exampleActivePubkey \<and>
   Refresh exampleWorld exampleState =
     Inr (exampleRefreshed, [WarnPeerNotFoundInGossip ''validator-3'' ''192.168.1.12'']) \<and>
   map_of (peerStatesByName exampleRefreshed) ''validator-1'' =
     Some \<lparr> PeerState.IP = ''192.168.1.10'', PeerState.Pubkey = exampleActivePubkey,
            LastSeenAtUTC = 5000, LastSeenActive = False \<rparr> \<and>
   \<not> HasActivePeer exampleRefreshed \<and>
   hardcodedPubkey \<noteq> activePubkey exampleState \<and>
   Refresh
     (exampleWorld\<lparr> GetClusterNodes :=
        Inr [\<lparr> ClusterNode.Pubkey = hardcodedPubkey, Gossip = Some ''192.168.1.11:8001'' \<rparr>] \<rparr>)
     exampleState =
     Inr (exampleState\<lparr> peerStatesByName :=
            [(''validator-2'', \<lparr> PeerState.IP = ''192.168.1.11'', PeerState.Pubkey = hardcodedPubkey,
                                 LastSeenAtUTC = 5000, LastSeenActive = True \<rparr>)],
            PeerStatesRefreshedAt := 5010 \<rparr>,
          [WarnPeerNotFoundInGossip ''validator-1'' ''192.168.1.10'',
           WarnPeerNotFoundInGossip ''validator-3'' ''192.168.1.12''])"
proof -
  have "hardcodedPubkey \<noteq> activePubkey exampleState"
    by (simp add: hardcodedPubkey_def exampleState_def exampleActivePubkey_def)
  moreover have "Refresh
     (exampleWorld\<lparr> GetClusterNodes :=
        Inr [\<lparr> ClusterNode.Pubkey = hardcodedPubkey, Gossip = Some ''192.168.1.11:8001'' \<rparr>] \<rparr>)
     exampleState =
     Inr (exampleState\<lparr> peerStatesByName :=
            [(''validator-2'', \<lparr> PeerState.IP = ''192.168.1.11'', PeerState.Pubkey = hardcodedPubkey,
                                 LastSeenAtUTC = 5000, LastSeenActive = True \<rparr>)],
            PeerStatesRefreshedAt := 5010 \<rparr>,
          [WarnPeerNotFoundInGossip ''validator-1'' ''192.168.1.10'',
           WarnPeerNotFoundInGossip ''validator-3'' ''192.168.1.12''])"
    by (simp add: Refresh_def exampleWorld_def exampleState_def examplePeers_def GetIPs_def
        hostOf_def)
  moreover have "activePubkey exampleState = exampleActivePubkey"
    "map_of (peerStatesByName exampleRefreshed) ''validator-1'' =
       Some \<lparr> PeerState.IP = ''192.168.1.10'', PeerState.Pubkey = exampleActivePubkey,
              LastSeenAtUTC = 5000, LastSeenActive = False \<rparr>"
    "\<not> HasActivePeer exampleRefreshed"
    by (simp_all add: exampleState_def exampleRefreshed_def HasActivePeer_def)
  ultimately show ?thesis using example_Refresh by simp
qed




text \<open>
  C3. When the call of the cluster directory fails, \<^verbatim>\<open>Refresh\<close> returns normally with an
  empty observation map and the refreshed-at instant set to the current time; the error
  is logged and not passed on, and the queries for an active peer answer no.
\<close>

theorem Refresh_rpc_failure:
  assumes "GetClusterNodes w = Inl err"
  shows "Refresh w p =
           Inr (p\<lparr> peerStatesByName := [], PeerStatesRefreshedAt := nowAtEnd w \<rparr>,
                [ErrorFailedToGetClusterNodes err]) \<and>
         \<not> HasActivePeer (p\<lparr> peerStatesByName := [], PeerStatesRefreshedAt := nowAtEnd w \<rparr>) \<and>
         \<not> HasActivePeerInTheLast now (p\<lparr> peerStatesByName := [], PeerStatesRefreshedAt := nowAtEnd w \<rparr>) d"
  using assms by (simp add: Refresh_def HasActivePeer_def HasActivePeerInTheLast_def)

theorem Refresh_rpc_failure_witness:
  "GetClusterNodes failedWorld = Inl ''connection refused'' \<and>
   HasActivePeer exampleState \<and>
   Refresh failedWorld exampleState =
     Inr (exampleState\<lparr> peerStatesByName := [], PeerStatesRefreshedAt := 5010 \<rparr>,
          [ErrorFailedToGetClusterNodes ''connection refused'']) \<and>
   \<not> HasActivePeer (exampleState\<lparr> peerStatesByName := [], PeerStatesRefreshedAt := 5010 \<rparr>) \<and>
   \<not> HasActivePeerInTheLast 6000
       (exampleState\<lparr> peerStatesByName := [], PeerStatesRefreshedAt := 5010 \<rparr>) 10000"
proof -
  have rpc: "GetClusterNodes failedWorld = Inl ''connection refused''"
    by (simp add: failedWorld_def)
  have now: "nowAtEnd failedWorld = 5010" by (simp add: failedWorld_def)
  have before: "HasActivePeer exampleState" by (simp add: HasActivePeer_def exampleState_def)
  from Refresh_rpc_failure [OF rpc, of exampleState 6000 10000] rpc before
  show ?thesis unfolding now by simp
qed

text \<open>
  C4. The claim: every call of \<^verbatim>\<open>Refresh\<close> replaces the whole observation map and
  updates the refreshed-at instant. The state holds an observation of validator-3 from an
  earlier refresh, of the instant 1000. When the response is that of the concrete cluster
  followed by a node that carries no gossip endpoint, the call panics on the nil pointer
  while it reads that node, after it has recorded validator-1 and validator-2 in the
  local map: the two assignments that close the function are not reached, and the state
  keeps the earlier observation and the earlier instant.
\<close>

theorem Refresh_panics_before_replacing_map:
  "peerStatesByName exampleState =
     [(''validator-3'', \<lparr> PeerState.IP = ''192.168.1.12'', PeerState.Pubkey = hardcodedPubkey,
                          LastSeenAtUTC = 1000, LastSeenActive = True \<rparr>)] \<and>
   PeerStatesRefreshedAt exampleState = 1000 \<and>
   refreshNodes exampleState exampleWorld 0 exampleNodes [] [] =
     Inr (peerStatesByName exampleRefreshed, []) \<and>
   Refresh
     (exampleWorld\<lparr> GetClusterNodes :=
        Inr (exampleNodes @
          [\<lparr> ClusterNode.Pubkey = ''Vote111111111111111111111111111111111111111'',
             Gossip = None \<rparr>]) \<rparr>)
     exampleState = Inl NilPointerDereference"
  by (simp add: Refresh_def exampleWorld_def exampleState_def exampleRefreshed_def
      exampleNodes_def examplePeers_def GetIPs_def hostOf_def hardcodedPubkey_def
      exampleActivePubkey_def)

text \<open>
  C5. \<^verbatim>\<open>HasActivePeerInTheLast\<close> answers yes exactly when some observation of the current
  map is flagged active and was last seen less than \<open>d\<close> ago, the time elapsed being
  \<^verbatim>\<open>time.Since\<close>; for every duration above the least one, that is the plain difference
  \<open>now - last_seen_utc\<close>.
\<close>

theorem HasActivePeerInTheLast_iff:
  "(HasActivePeerInTheLast now p d \<longleftrightarrow>
      (\<exists>(name, peer) \<in> set (peerStatesByName p).
         LastSeenActive peer \<and> time_Since now (LastSeenAtUTC peer) < d)) \<and>
   (minDuration < d \<and> d \<le> maxDuration \<longrightarrow>
      (HasActivePeerInTheLast now p d \<longleftrightarrow>
         (\<exists>(name, peer) \<in> set (peerStatesByName p).
            LastSeenActive peer \<and> now - LastSeenAtUTC peer < d)))"
  by (simp add: HasActivePeerInTheLast_def anyActiveInTheLast_iff time_Since_less_iff)

theorem HasActivePeerInTheLast_iff_witness:
  "minDuration < 10000 \<and> 10000 \<le> maxDuration \<and>
   HasActivePeerInTheLast 6000 exampleState 10000 \<and>
   \<not> HasActivePeerInTheLast 11000 exampleState 10000 \<and>
   \<not> HasActivePeerInTheLast 6000 exampleRefreshed 10000"
proof -
  have d: "minDuration < 10000 \<and> 10000 \<le> maxDuration"
    by (simp add: minDuration_def maxDuration_def)
  note plain = HasActivePeerInTheLast_iff [THEN conjunct2, THEN mp, OF d]
  have "HasActivePeerInTheLast 6000 exampleState 10000"
    unfolding plain by (simp add: exampleState_def)
  moreover have "\<not> HasActivePeerInTheLast 11000 exampleState 10000"
    unfolding plain by (simp add: exampleState_def)
  moreover have "\<not> HasActivePeerInTheLast 6000 exampleRefreshed 10000"
    unfolding plain by (simp add: exampleRefreshed_def)
  ultimately show ?thesis using d by simp
qed

text \<open>
  C9. With the configured peers a map, whenever \<^verbatim>\<open>Refresh\<close> returns, the configured
  peers are unchanged, the keys of the observation map are distinct names of configured
  peers, and the observation under a name has the IP of the configured peer of that name.
  It returns when the directory call fails or every returned node carries a gossip
  endpoint. A new state has no observation.
\<close>

theorem Refresh_keys_are_configured:
  assumes cfg: "goMap (configPeers p)"
    and visits: "\<And>j. visitOf (configPeers p) (lookupOrder w j)"
  shows "(\<forall>p' lg. Refresh w p = Inr (p', lg) \<longrightarrow>
            configPeers p' = configPeers p \<and>
            distinct (map fst (peerStatesByName p')) \<and>
            (\<forall>(name, obs) \<in> set (peerStatesByName p').
               \<exists>peer. map_of (configPeers p) name = Some peer \<and>
                 Peer.IP peer = PeerState.IP obs)) \<and>
         ((\<forall>nodes. GetClusterNodes w = Inr nodes \<longrightarrow> (\<forall>node \<in> set nodes. Gossip node \<noteq> None)) \<longrightarrow>
            (\<exists>p' lg. Refresh w p = Inr (p', lg))) \<and>
         peerStatesByName (NewState opts) = []"
proof -
  have inv: "configPeers p' = configPeers p \<and> consistent (configPeers p) (peerStatesByName p')"
    if ref: "Refresh w p = Inr (p', lg)" for p' lg
    using Refresh_Inr_D [OF ref]
  proof (elim disjE exE conjE)
    fix err
    assume "p' = p\<lparr> peerStatesByName := [], PeerStatesRefreshedAt := nowAtEnd w \<rparr>"
    then show ?thesis by (simp add: consistent_Nil)
  next
    fix nodes latest lg0
    assume run: "refreshNodes p w 0 nodes [] [] = Inr (latest, lg0)"
      and p': "p' = p\<lparr> peerStatesByName := latest, PeerStatesRefreshedAt := nowAtEnd w \<rparr>"
    from refreshNodes_consistent [OF run cfg visits consistent_Nil] p'
    show ?thesis by simp
  qed
  have ret: "\<exists>p' lg. Refresh w p = Inr (p', lg)"
    if "\<forall>nodes. GetClusterNodes w = Inr nodes \<longrightarrow> (\<forall>node \<in> set nodes. Gossip node \<noteq> None)"
    using Refresh_returns [of w p] that by blast
  have new: "peerStatesByName (NewState opts) = []" by (simp add: NewState_def)
  show ?thesis using inv ret new unfolding consistent_def by blast
qed

theorem Refresh_keys_are_configured_witness:
  "goMap (configPeers exampleState) \<and>
   (\<exists>p' lg. Refresh exampleWorld exampleState = Inr (p', lg) \<and>
      configPeers p' = configPeers exampleState \<and>
      distinct (map fst (peerStatesByName p')) \<and>
      (\<exists>obs peer. map_of (peerStatesByName p') ''validator-1'' = Some obs \<and>
         map_of (configPeers exampleState) ''validator-1'' = Some peer \<and>
         Peer.IP peer = PeerState.IP obs))"
proof -
  note main = Refresh_keys_are_configured [of exampleState exampleWorld,
      OF example_config(1) example_visits(1)]
  from main [THEN conjunct1, rule_format, OF example_Refresh]
  have inv: "configPeers exampleRefreshed = configPeers exampleState"
    "distinct (map fst (peerStatesByName exampleRefreshed))"
    "\<forall>(name, obs) \<in> set (peerStatesByName exampleRefreshed).
       \<exists>peer. map_of (configPeers exampleState) name = Some peer \<and>
         Peer.IP peer = PeerState.IP obs"
    by simp_all
  let ?obs = "\<lparr> PeerState.IP = ''192.168.1.10'', PeerState.Pubkey = exampleActivePubkey,
                 LastSeenAtUTC = 5000, LastSeenActive = False \<rparr>"
  have mem: "(''validator-1'', ?obs) \<in> set (peerStatesByName exampleRefreshed)"
    and look: "map_of (peerStatesByName exampleRefreshed) ''validator-1'' = Some ?obs"
    by (simp_all add: exampleRefreshed_def)
  from inv(3) mem obtain peer where
    "map_of (configPeers exampleState) ''validator-1'' = Some peer" "Peer.IP peer = PeerState.IP ?obs"
    by blast
  with look have "\<exists>obs peer. map_of (peerStatesByName exampleRefreshed) ''validator-1'' = Some obs \<and>
         map_of (configPeers exampleState) ''validator-1'' = Some peer \<and>
         Peer.IP peer = PeerState.IP obs" by blast
  with inv(1,2) example_Refresh example_config(1) show ?thesis by blast
qed

section \<open>The loops of the validation and of the public-IP discovery\<close>



lemma validatePublicIPServiceURLs_None:
  "validatePublicIPServiceURLs parse urls = None \<longleftrightarrow> (\<forall>u \<in> set urls. validURL parse u)"
  by (induction urls) (auto simp: validURL_def split: sum.splits)


lemma firstAccepted_None_iff:
  "firstAccepted isIPv4 http urls = None \<longleftrightarrow>
     (\<forall>i < length urls. \<not> accepted isIPv4 (http i (urls ! i)))"
  unfolding firstAccepted_def find_None_iff
  by (auto simp: in_set_conv_nth nth_enumerate_eq)

lemmas sanitize_defs = sanitizedIP_def firstLine_def TrimSpace_def Trim_def trimLeftByte_def
  trimRightByte_def asciiSpace_def twoByteSpace_def threeByteSpace_def


lemma sanitizedIP_unicode_space: "sanitizedIP (CHR 0xC2 # CHR 0xA0 # CHR 0x27 # ''1.2.3.4'' @ [CHR 0x27, CHR 0xE2, CHR 0x80, CHR 0x89, CHR 0x0D, CHR 0x0A] @ ''second line'') = ''1.2.3.4''"
  by (simp add: sanitize_defs)

















text \<open>The stand-in for the key library on the concrete keys, and on a key that is too short.\<close>

lemma examplePk_A1: "examplePk exampleKeyA1 = Some (replicate 32 (CHR ''A''))"
  by (simp add: examplePk_def exampleKeyA1_def)

lemma examplePk_A2: "examplePk exampleKeyA2 = Some (replicate 32 (CHR ''A''))"
  by (simp add: examplePk_def exampleKeyA2_def)

lemma examplePk_B: "examplePk exampleKeyB = Some (replicate 32 (CHR ''B''))"
  by (simp add: examplePk_def exampleKeyB_def)

text \<open>
  On a key pair that is not loaded, or on a key that is not well formed,
  \<^verbatim>\<open>ValidatorIdentities.Validate\<close> panics.
\<close>

lemma ValidatorIdentities_Validate_nil:
  "ActiveKeyPair v = None \<Longrightarrow> ValidatorIdentities_Validate pk v = Inl NilPointerDereference"
  by (simp add: ValidatorIdentities_Validate_def)

lemma ValidatorIdentities_Validate_bad_key:
  "ActiveKeyPair v = Some active \<Longrightarrow> pk active = None \<Longrightarrow>
     ValidatorIdentities_Validate pk v = Inl BadPrivateKey"
  by (simp add: ValidatorIdentities_Validate_def)

lemma ValidatorIdentities_Validate_short_key:
  "ValidatorIdentities_Validate examplePk
     \<lparr> ActiveKeyPairFile = ''active.json'', ActiveKeyPair = Some ''abc'',
       PassiveKeyPairFile = ''passive.json'', PassiveKeyPair = Some ''xyz'' \<rparr> =
     Inl BadPrivateKey"
  by (simp add: ValidatorIdentities_Validate_def examplePk_def)

section \<open>Properties of the validator configuration\<close>



text \<open>
  C7. With both key pairs loaded and well formed, so that the key library gives the text
  of either public key, \<^verbatim>\<open>ValidatorIdentities.Validate\<close> returns an error exactly when the
  two public keys are equal, and then the error that the identities must be different;
  with distinct public keys it returns no error.
\<close>

theorem ValidatorIdentities_Validate_iff:
  assumes "ActiveKeyPair v = Some active" "PassiveKeyPair v = Some passive"
    and "pk active = Some activeKey" "pk passive = Some passiveKey"
  shows "((\<exists>err. ValidatorIdentities_Validate pk v = Inr (Some err)) \<longleftrightarrow>
            activeKey = passiveKey) \<and>
         (activeKey = passiveKey \<longrightarrow>
            ValidatorIdentities_Validate pk v = Inr (Some (IdentitiesMustBeDifferent activeKey))) \<and>
         (activeKey \<noteq> passiveKey \<longrightarrow> ValidatorIdentities_Validate pk v = Inr None)"
  using assms by (simp add: ValidatorIdentities_Validate_def)

theorem ValidatorIdentities_Validate_iff_witness:
  "ValidatorIdentities_Validate examplePk
     \<lparr> ActiveKeyPairFile = ''active.json'', ActiveKeyPair = Some exampleKeyA1,
       PassiveKeyPairFile = ''passive.json'', PassiveKeyPair = Some exampleKeyA2 \<rparr> =
     Inr (Some (IdentitiesMustBeDifferent (replicate 32 (CHR ''A'')))) \<and>
   ValidatorIdentities_Validate examplePk
     \<lparr> ActiveKeyPairFile = ''active.json'', ActiveKeyPair = Some exampleKeyA1,
       PassiveKeyPairFile = ''passive.json'', PassiveKeyPair = Some exampleKeyB \<rparr> =
     Inr None"
proof -
  let ?same = "\<lparr> ActiveKeyPairFile = ''active.json'', ActiveKeyPair = Some exampleKeyA1,
       PassiveKeyPairFile = ''passive.json'', PassiveKeyPair = Some exampleKeyA2 \<rparr>"
  let ?differ = "\<lparr> ActiveKeyPairFile = ''active.json'', ActiveKeyPair = Some exampleKeyA1,
       PassiveKeyPairFile = ''passive.json'', PassiveKeyPair = Some exampleKeyB \<rparr>"
  have a: "ActiveKeyPair ?same = Some exampleKeyA1" "PassiveKeyPair ?same = Some exampleKeyA2"
    and b: "ActiveKeyPair ?differ = Some exampleKeyA1" "PassiveKeyPair ?differ = Some exampleKeyB"
    by simp_all
  have ne: "replicate 32 (CHR ''A'') \<noteq> replicate 32 (CHR ''B'')"
    by (simp add: replicate_eq_replicate)
  from ValidatorIdentities_Validate_iff
      [OF a examplePk_A1 examplePk_A2, THEN conjunct2, THEN conjunct1, THEN mp, OF refl]
    ValidatorIdentities_Validate_iff
      [OF b examplePk_A1 examplePk_B, THEN conjunct2, THEN conjunct2, THEN mp, OF ne]
  show ?thesis by (rule conjI)
qed

text \<open>
  C10. For a configuration with a name, an RPC URL that is not empty and parses with
  scheme and host, and public-IP service URLs that all parse so, \<^verbatim>\<open>Validator.Validate\<close>
  checks the identity pair exactly when both key pairs are loaded; with key pairs that
  are not loaded it returns no error.
\<close>

theorem Validator_Validate_identities_only_when_loaded:
  assumes "Validator.Name v \<noteq> []" "RPCURL v \<noteq> []" "validURL parse (RPCURL v)"
    and "\<forall>u \<in> set (PublicIPServiceURLs v). validURL parse u"
  shows "Validator_Validate pk parse v =
           (if ActiveKeyPair (Identities v) \<noteq> None \<and> PassiveKeyPair (Identities v) \<noteq> None
            then ValidatorIdentities_Validate pk (Identities v) else Inr None) \<and>
         (ActiveKeyPair (Identities v) = None \<and> PassiveKeyPair (Identities v) = None \<longrightarrow>
            Validator_Validate pk parse v = Inr None)"
  using assms validatePublicIPServiceURLs_None [of parse "PublicIPServiceURLs v"]
  by (auto simp: Validator_Validate_def validURL_def split: sum.splits option.splits)

theorem Validator_Validate_identities_only_when_loaded_witness:
  "Validator_Validate examplePk exampleParse exampleValidator = Inr None \<and>
   Validator_Validate examplePk exampleParse
     (exampleValidator\<lparr> Identities :=
        \<lparr> ActiveKeyPairFile = ''active.json'', ActiveKeyPair = Some exampleKeyA1,
          PassiveKeyPairFile = ''passive.json'', PassiveKeyPair = Some exampleKeyA2 \<rparr> \<rparr>) =
     Inr (Some (IdentitiesMustBeDifferent (replicate 32 (CHR ''A''))))"
proof -
  let ?v = "exampleValidator"
  let ?ids = "\<lparr> ActiveKeyPairFile = ''active.json'', ActiveKeyPair = Some exampleKeyA1,
                PassiveKeyPairFile = ''passive.json'', PassiveKeyPair = Some exampleKeyA2 \<rparr>"
  let ?w = "exampleValidator\<lparr> Identities := ?ids \<rparr>"
  have v: "Validator.Name ?v \<noteq> []" "RPCURL ?v \<noteq> []" "validURL exampleParse (RPCURL ?v)"
    "\<forall>u \<in> set (PublicIPServiceURLs ?v). validURL exampleParse u"
    by (simp_all add: exampleValidator_def validURL_def exampleParse_def exampleServices_def)
  have w: "Validator.Name ?w \<noteq> []" "RPCURL ?w \<noteq> []" "validURL exampleParse (RPCURL ?w)"
    "\<forall>u \<in> set (PublicIPServiceURLs ?w). validURL exampleParse u"
    by (simp_all add: exampleValidator_def validURL_def exampleParse_def exampleServices_def)
  have unloaded: "ActiveKeyPair (Identities ?v) = None \<and> PassiveKeyPair (Identities ?v) = None"
    by (simp add: exampleValidator_def)
  have loaded: "ActiveKeyPair (Identities ?w) \<noteq> None \<and> PassiveKeyPair (Identities ?w) \<noteq> None"
    by simp
  have ids: "ValidatorIdentities_Validate examplePk (Identities ?w) =
      Inr (Some (IdentitiesMustBeDifferent (replicate 32 (CHR ''A''))))"
    by (simp add: ValidatorIdentities_Validate_def examplePk_A1 examplePk_A2)
  from Validator_Validate_identities_only_when_loaded
      [OF v, of examplePk, THEN conjunct2, THEN mp, OF unloaded]
  have first: "Validator_Validate examplePk exampleParse ?v = Inr None" .
  from Validator_Validate_identities_only_when_loaded [OF w, of examplePk, THEN conjunct1] loaded ids
  have second: "Validator_Validate examplePk exampleParse ?w =
      Inr (Some (IdentitiesMustBeDifferent (replicate 32 (CHR ''A''))))" by simp
  from first second show ?thesis by (rule conjI)
qed

section \<open>Properties of the command templates\<close>

lemma lookupVariable_None_iff:
  "lookupVariable data name = None \<longleftrightarrow> name \<notin> set templateVariables"
  by (simp add: lookupVariable_def templateVariables_def)

lemma executeTemplate_unknown:
  "Variable name \<in> set pieces \<Longrightarrow> name \<notin> set templateVariables \<Longrightarrow>
     \<exists>err. executeTemplate data pieces = Inl err"
proof (induction data pieces rule: executeTemplate.induct)
  case (1 data)
  then show ?case by simp
next
  case (2 data t pieces)
  then show ?case by (auto split: sum.splits)
next
  case (3 data n pieces)
  show ?case
  proof (cases "lookupVariable data n")
    case None
    then show ?thesis by simp
  next
    case (Some v)
    then have "n \<in> set templateVariables"
      using lookupVariable_None_iff [of data n] by simp
    with "3.prems" have "Variable name \<in> set pieces" by auto
    from "3.IH" [OF Some this "3.prems"(2)] Some show ?thesis by (auto split: sum.splits)
  qed
qed

lemma renderTemplateString_unknown:
  "refersTo template name \<Longrightarrow> name \<notin> set templateVariables \<Longrightarrow>
     \<exists>err. renderTemplateString data template = Inl err"
  using executeTemplate_unknown [of name _ data]
  by (auto simp: refersTo_def renderTemplateString_def split: sum.splits)

lemma renderStrings_error:
  "template \<in> set templates \<Longrightarrow> renderTemplateString data template = Inl err \<Longrightarrow>
     \<exists>err'. renderStrings data templates = Inl err'"
  by (induction templates) (auto split: sum.splits)


lemmas template_defs = renderTemplateString_def parseTemplate_def actionOf_def trimBlanks_def
  blank_def identifierChar_def lookupVariable_def

text \<open>The renderer on the templates of the tests and of the example script.\<close>

lemma renderTemplateString_one_variable:
  "renderTemplateString \<lparr> ActiveIdentityKeypairFile = [], ActiveIdentityPubkey = ''test-pubkey'',
       PassiveIdentityKeypairFile = [], PassiveIdentityPubkey = [] \<rparr>
     ''echo {{.ActiveIdentityPubkey}}'' = Inr ''echo test-pubkey''"
  by (simp add: template_defs)

lemma renderTemplateString_empty_variable:
  "renderTemplateString \<lparr> ActiveIdentityKeypairFile = [], ActiveIdentityPubkey = ''test-pubkey'',
       PassiveIdentityKeypairFile = [], PassiveIdentityPubkey = [] \<rparr>
     ''{{.ActiveIdentityPubkey}} {{.PassiveIdentityPubkey}}'' = Inr ''test-pubkey ''"
  by (simp add: template_defs)

lemma renderTemplateString_invalid_field:
  "renderTemplateString \<lparr> ActiveIdentityKeypairFile = [], ActiveIdentityPubkey = ''test-pubkey'',
       PassiveIdentityKeypairFile = [], PassiveIdentityPubkey = [] \<rparr>
     ''{{.InvalidField}}'' = Inl (FailedToExecuteCommandTemplate ''InvalidField'')"
  by (simp add: template_defs)

lemma renderTemplateString_blanks:
  "renderTemplateString \<lparr> ActiveIdentityKeypairFile = ''/a.json'', ActiveIdentityPubkey = ''pk'',
       PassiveIdentityKeypairFile = [], PassiveIdentityPubkey = [] \<rparr>
     ''tower-1_9-{{ .ActiveIdentityPubkey }}.bin'' = Inr ''tower-1_9-pk.bin''"
  by (simp add: template_defs)

lemma example_RenderCommands:
  "RenderCommands exampleTemplateData exampleRole =
     Inr \<lparr> Role.Command = ''systemctl active-pubkey'',
           Role.Args = [''--identity'', ''/path/to/active.json''],
           Role.Hooks =
             \<lparr> Pre = [\<lparr> Hook.Name = ''pre-hook'', Hook.Command = ''echo '' @ [CHR 0x27] @ ''passive-pubkey'' @ [CHR 0x27],
                         Hook.Args = [], MustSucceed = False \<rparr>],
               Post = [\<lparr> Hook.Name = ''post-hook'', Hook.Command =
                            ''echo '' @ [CHR 0x27] @ ''/path/to/passive.json'' @ [CHR 0x27],
                          Hook.Args = [], MustSucceed = False \<rparr>] \<rparr> \<rparr>"
  by (simp add: RenderCommands_def renderHook_def exampleRole_def exampleTemplateData_def template_defs)

text \<open>
  C8. When the command of a role, or one of its arguments, refers to a variable outside
  the fixed set, \<^verbatim>\<open>RenderCommands\<close> returns the error that the command and the arguments
  could not be rendered, and no role.
\<close>

theorem RenderCommands_unknown_variable:
  assumes "template = Role.Command role \<or> template \<in> set (Role.Args role)"
    and "refersTo template name" and "name \<notin> set templateVariables"
  shows "\<exists>err. RenderCommands data role = Inl (FailedToRenderCommandAndArgs err)"
proof -
  from renderTemplateString_unknown [OF assms(2,3)]
  obtain err where err: "renderTemplateString data template = Inl err" by blast
  show ?thesis
  proof (cases "renderTemplateString data (Role.Command role)")
    case (Inl e)
    then show ?thesis by (simp add: RenderCommands_def)
  next
    case (Inr command)
    with assms(1) err have "template \<in> set (Role.Args role)" by auto
    from renderStrings_error [OF this err]
    obtain e where "renderStrings data (Role.Args role) = Inl e" by blast
    with Inr show ?thesis by (simp add: RenderCommands_def)
  qed
qed

theorem RenderCommands_unknown_variable_witness:
  "refersTo ''systemctl {{.InvalidField}}'' ''InvalidField'' \<and>
   ''InvalidField'' \<notin> set templateVariables \<and>
   (\<exists>err. RenderCommands exampleTemplateData
            (exampleRole\<lparr> Role.Command := ''systemctl {{.InvalidField}}'' \<rparr>) =
          Inl (FailedToRenderCommandAndArgs err)) \<and>
   (\<exists>err. RenderCommands exampleTemplateData
            (exampleRole\<lparr> Role.Args := [''--identity'', ''{{ .InvalidField }}''] \<rparr>) =
          Inl (FailedToRenderCommandAndArgs err))"
proof -
  let ?r1 = "exampleRole\<lparr> Role.Command := ''systemctl {{.InvalidField}}'' \<rparr>"
  let ?r2 = "exampleRole\<lparr> Role.Args := [''--identity'', ''{{ .InvalidField }}''] \<rparr>"
  have ref1: "refersTo ''systemctl {{.InvalidField}}'' ''InvalidField''"
    and ref2: "refersTo ''{{ .InvalidField }}'' ''InvalidField''"
    by (simp_all add: refersTo_def template_defs)
  have out: "''InvalidField'' \<notin> set templateVariables"
    by (simp add: templateVariables_def)
  have in1: "''systemctl {{.InvalidField}}'' = Role.Command ?r1 \<or>
      ''systemctl {{.InvalidField}}'' \<in> set (Role.Args ?r1)" by simp
  have in2: "''{{ .InvalidField }}'' = Role.Command ?r2 \<or>
      ''{{ .InvalidField }}'' \<in> set (Role.Args ?r2)" by simp
  from RenderCommands_unknown_variable [OF in1 ref1 out, of exampleTemplateData]
    RenderCommands_unknown_variable [OF in2 ref2 out, of exampleTemplateData] ref1 out
  show ?thesis by (intro conjI)
qed

end
